theory Spec2Isabelle
  imports Complex_Main "HOL-Library.Word"
begin

section \<open>Data model (types.ts)\<close>

text \<open>
  JavaScript numbers that carry geometry (corner points, page sizes, scales) are
  modelled as real numbers: the arithmetic of the source is read exactly, without the
  rounding of IEEE doubles.
\<close>

record QrCodeLocation =
  loc_x :: real
  loc_y :: real
  loc_width :: real
  loc_height :: real

text \<open>
  QrCodeInfo. The id is the template string of page number, x and y; it is kept as the
  triple it is printed from. The imageDataUrl is the data URL of a canvas that holds the
  crop of the page canvas; it is kept as the source rectangle of that crop.
\<close>

record QrCodeInfo =
  qr_id :: "nat \<times> real \<times> real"
  qr_data :: string
  qr_imageCrop :: QrCodeLocation
  qr_location :: QrCodeLocation
  qr_pageNumber :: nat
  qr_pageWidth :: real
  qr_pageHeight :: real

text \<open>
  A page of the source document as pdf.js presents it: its size in points (the viewport
  at scale 1) and its rasterisation at a given scale.
\<close>

record 'img pdf_page =
  pg_width :: real
  pg_height :: real
  pg_render :: "real \<Rightarrow> 'img"

definition getViewport :: "'img pdf_page \<Rightarrow> real \<Rightarrow> real \<times> real" where
  "getViewport page scale = (pg_width page * scale, pg_height page * scale)"

section \<open>Extraction with jsQR (services/pdf, jsQR version)\<close>

text \<open>
  The extraction functions are modelled for a run in which the libraries are loaded and
  every canvas yields its 2d context: otherwise the source throws before it reads a
  page. A run of a scan loop that never leaves the loop is the value None.
\<close>

record point =
  pt_x :: real
  pt_y :: real

record jsqr_location =
  topLeftCorner :: point
  topRightCorner :: point
  bottomLeftCorner :: point
  bottomRightCorner :: point

record jsqr_code =
  code_data :: string
  code_location :: jsqr_location

text \<open>ImageData: width, height and the RGBA bytes, four per pixel, row by row.\<close>

record ImageData =
  img_width :: nat
  img_height :: nat
  img_data :: "8 word list"

text \<open>The object pushed to allQrCodes for a code found on page i.\<close>

definition markerRecord_jsQR :: "nat \<Rightarrow> real \<Rightarrow> real \<times> real \<Rightarrow> jsqr_code \<Rightarrow> QrCodeInfo" where
  "markerRecord_jsQR i scale viewport code =
     (let x = pt_x (topLeftCorner (code_location code));
          y = pt_y (topLeftCorner (code_location code));
          qrWidth = pt_x (topRightCorner (code_location code)) - x;
          qrHeight = pt_y (bottomLeftCorner (code_location code)) - y
      in \<lparr>qr_id = (i, x, y),
          qr_data = code_data code,
          qr_imageCrop = \<lparr>loc_x = x, loc_y = y, loc_width = qrWidth, loc_height = qrHeight\<rparr>,
          qr_location = \<lparr>loc_x = x / scale, loc_y = y / scale,
                         loc_width = qrWidth / scale, loc_height = qrHeight / scale\<rparr>,
          qr_pageNumber = i,
          qr_pageWidth = fst viewport / scale,
          qr_pageHeight = snd viewport / scale\<rparr>)"

text \<open>The body of the two pixel loops: out-of-range pixels are skipped.\<close>

definition paintWhite :: "int \<Rightarrow> int \<Rightarrow> ImageData \<Rightarrow> ImageData" where
  "paintWhite yPixel xPixel imageData =
     (if xPixel < 0 \<or> xPixel \<ge> int (img_width imageData) \<or>
         yPixel < 0 \<or> yPixel \<ge> int (img_height imageData)
      then imageData
      else let pixelIndex = nat ((yPixel * int (img_width imageData) + xPixel) * 4)
           in imageData\<lparr>img_data :=
                (img_data imageData)[pixelIndex := 255, pixelIndex + 1 := 255,
                                     pixelIndex + 2 := 255]\<rparr>)"

definition padding :: int where
  "padding = 10"

definition min4 :: "real \<Rightarrow> real \<Rightarrow> real \<Rightarrow> real \<Rightarrow> real" where
  "min4 a b c d = min a (min b (min c d))"

definition max4 :: "real \<Rightarrow> real \<Rightarrow> real \<Rightarrow> real \<Rightarrow> real" where
  "max4 a b c d = max a (max b (max c d))"

definition whiteMinX :: "jsqr_location \<Rightarrow> int" where
  "whiteMinX l = \<lfloor>min4 (pt_x (topLeftCorner l)) (pt_x (topRightCorner l))
                      (pt_x (bottomLeftCorner l)) (pt_x (bottomRightCorner l))\<rfloor> - padding"

definition whiteMaxX :: "jsqr_location \<Rightarrow> int" where
  "whiteMaxX l = \<lceil>max4 (pt_x (topLeftCorner l)) (pt_x (topRightCorner l))
                      (pt_x (bottomLeftCorner l)) (pt_x (bottomRightCorner l))\<rceil> + padding"

definition whiteMinY :: "jsqr_location \<Rightarrow> int" where
  "whiteMinY l = \<lfloor>min4 (pt_y (topLeftCorner l)) (pt_y (topRightCorner l))
                      (pt_y (bottomLeftCorner l)) (pt_y (bottomRightCorner l))\<rfloor> - padding"

definition whiteMaxY :: "jsqr_location \<Rightarrow> int" where
  "whiteMaxY l = \<lceil>max4 (pt_y (topLeftCorner l)) (pt_y (topRightCorner l))
                      (pt_y (bottomLeftCorner l)) (pt_y (bottomRightCorner l))\<rceil> + padding"

text \<open>
  The white-out of a found code: for yPixel from minY below maxY, for xPixel from minX
  below maxX, paint the pixel.
\<close>

definition whiteOut :: "jsqr_location \<Rightarrow> ImageData \<Rightarrow> ImageData" where
  "whiteOut l imageData =
     fold (\<lambda>yPixel. fold (paintWhite yPixel) [whiteMinX l..whiteMaxX l - 1])
          [whiteMinY l..whiteMaxY l - 1] imageData"

text \<open>
  The scan loop of one page, \<^verbatim>\<open>while (true)\<close> with the single exit at a detector call
  that finds nothing. The detector jsQR is the external library: a function of the
  image data. The crop is taken from the page canvas, which the loop never changes.
\<close>

partial_function (option) scanPage_jsQR ::
  "(ImageData \<Rightarrow> jsqr_code option) \<Rightarrow> nat \<Rightarrow> real \<Rightarrow> real \<times> real \<Rightarrow>
   ImageData \<Rightarrow> QrCodeInfo list \<Rightarrow> (QrCodeInfo list \<times> ImageData) option" where
  "scanPage_jsQR jsQR i scale viewport imageData allQrCodes =
     (case jsQR imageData of
        Some code \<Rightarrow>
          scanPage_jsQR jsQR i scale viewport
            (whiteOut (code_location code) imageData)
            (allQrCodes @ [markerRecord_jsQR i scale viewport code])
      | None \<Rightarrow> Some (allQrCodes, imageData))"

text \<open>The loop over the pages, from page i on, at the fixed scale 3.\<close>

fun extractPages_jsQR ::
  "(ImageData \<Rightarrow> jsqr_code option) \<Rightarrow> nat \<Rightarrow> ImageData pdf_page list \<Rightarrow>
   QrCodeInfo list \<Rightarrow> QrCodeInfo list option" where
  "extractPages_jsQR jsQR i [] allQrCodes = Some allQrCodes"
| "extractPages_jsQR jsQR i (page # pages) allQrCodes =
     (case scanPage_jsQR jsQR i 3 (getViewport page 3) (pg_render page 3) allQrCodes of
        None \<Rightarrow> None
      | Some (found, _) \<Rightarrow> extractPages_jsQR jsQR (i + 1) pages found)"

definition extractQrCodesFromPdf_jsQR ::
  "(ImageData \<Rightarrow> jsqr_code option) \<Rightarrow> ImageData pdf_page list \<Rightarrow> QrCodeInfo list option" where
  "extractQrCodesFromPdf_jsQR jsQR pages = extractPages_jsQR jsQR 1 pages []"

section \<open>Extraction with ZXing (services/pdf, ZXing versions)\<close>

text \<open>
  decodeFromCanvas either returns a result (its text and its result points) or throws:
  NotFoundException, or anything else. For a QR code ZXing returns the centres of the
  finder patterns and, when present, of the alignment pattern: the list of points is
  never empty, and the model keeps its first point apart.
\<close>

record zxing_result =
  res_text :: string
  res_point :: point
  res_points :: "point list"

datatype decode_outcome =
  Decoded zxing_result
| NotFoundException
| OtherException string

definition getResultPoints :: "zxing_result \<Rightarrow> point list" where
  "getResultPoints r = res_point r # res_points r"

text \<open>\<^verbatim>\<open>Math.min(...xs)\<close> and \<^verbatim>\<open>Math.max(...xs)\<close> on a list with a first element.\<close>

fun Math_min :: "real list \<Rightarrow> real" where
  "Math_min (v # vs) = fold min vs v"

fun Math_max :: "real list \<Rightarrow> real" where
  "Math_max (v # vs) = fold max vs v"

text \<open>
  The page canvas: what was rendered on it and the white rectangles filled since, in
  order. (The browser owns the pixels; the detector is a function of this state.)
\<close>

record 'img canvas =
  cv_rendered :: 'img
  cv_fills :: "QrCodeLocation list"

definition fillRect :: "real \<Rightarrow> real \<Rightarrow> real \<Rightarrow> real \<Rightarrow> 'img canvas \<Rightarrow> 'img canvas" where
  "fillRect rx ry rw rh c =
     c\<lparr>cv_fills := cv_fills c @ [\<lparr>loc_x = rx, loc_y = ry, loc_width = rw, loc_height = rh\<rparr>]\<rparr>"

text \<open>The object pushed to allQrCodes for a decoded result on page i.\<close>

definition markerRecord_ZXing :: "nat \<Rightarrow> real \<Rightarrow> real \<times> real \<Rightarrow> zxing_result \<Rightarrow> QrCodeInfo" where
  "markerRecord_ZXing i scale viewport result =
     (let resultPoints = getResultPoints result;
          minX = Math_min (map pt_x resultPoints);
          maxX = Math_max (map pt_x resultPoints);
          minY = Math_min (map pt_y resultPoints);
          maxY = Math_max (map pt_y resultPoints);
          qrWidth = maxX - minX;
          qrHeight = maxY - minY
      in \<lparr>qr_id = (i, minX, minY),
          qr_data = res_text result,
          qr_imageCrop = \<lparr>loc_x = minX, loc_y = minY, loc_width = qrWidth, loc_height = qrHeight\<rparr>,
          qr_location = \<lparr>loc_x = minX / scale, loc_y = minY / scale,
                         loc_width = qrWidth / scale, loc_height = qrHeight / scale\<rparr>,
          qr_pageNumber = i,
          qr_pageWidth = fst viewport / scale,
          qr_pageHeight = snd viewport / scale\<rparr>)"

text \<open>Blanking the found code: \<^verbatim>\<open>ctx.fillRect(minX, minY, qrWidth, qrHeight)\<close> in white.\<close>

definition blankOut :: "zxing_result \<Rightarrow> 'img canvas \<Rightarrow> 'img canvas" where
  "blankOut result c =
     (let resultPoints = getResultPoints result;
          minX = Math_min (map pt_x resultPoints);
          maxX = Math_max (map pt_x resultPoints);
          minY = Math_min (map pt_y resultPoints);
          maxY = Math_max (map pt_y resultPoints);
          qrWidth = maxX - minX;
          qrHeight = maxY - minY
      in fillRect minX minY qrWidth qrHeight c)"

text \<open>
  The scan loop \<^verbatim>\<open>while (true) { try { ... } catch (err) { ... } }\<close>, which the
  extraction from a PDF page and the extraction from an image share word for word but
  for the object they push; \<open>mkInfo\<close> is that object, made from the decoded result.
  NotFoundException leaves the loop; any other exception is written to the console with
  console.error and leaves the loop as well. The state is the canvas, the list
  allQrCodes and the console.
\<close>

partial_function (option) scanCanvas ::
  "('img canvas \<Rightarrow> decode_outcome) \<Rightarrow> (zxing_result \<Rightarrow> QrCodeInfo) \<Rightarrow>
   'img canvas \<Rightarrow> QrCodeInfo list \<Rightarrow> string list \<Rightarrow>
   (QrCodeInfo list \<times> 'img canvas \<times> string list) option" where
  "scanCanvas decodeFromCanvas mkInfo c allQrCodes console =
     (case decodeFromCanvas c of
        Decoded result \<Rightarrow>
          scanCanvas decodeFromCanvas mkInfo
            (blankOut result c) (allQrCodes @ [mkInfo result]) console
      | NotFoundException \<Rightarrow> Some (allQrCodes, c, console)
      | OtherException err \<Rightarrow> Some (allQrCodes, c, console @ [err]))"

text \<open>
  The loop over the pages from page i on. Each page is rendered on the shared canvas,
  which replaces what the canvas held. The scale is 2 in one version of the file and 3
  in the other.
\<close>

fun extractPages_ZXing ::
  "('img canvas \<Rightarrow> decode_outcome) \<Rightarrow> real \<Rightarrow> nat \<Rightarrow> 'img pdf_page list \<Rightarrow>
   QrCodeInfo list \<Rightarrow> string list \<Rightarrow> (QrCodeInfo list \<times> string list) option" where
  "extractPages_ZXing decodeFromCanvas scale i [] allQrCodes console =
     Some (allQrCodes, console)"
| "extractPages_ZXing decodeFromCanvas scale i (page # pages) allQrCodes console =
     (case scanCanvas decodeFromCanvas
             (markerRecord_ZXing i scale (getViewport page scale))
             \<lparr>cv_rendered = pg_render page scale, cv_fills = []\<rparr> allQrCodes console of
        None \<Rightarrow> None
      | Some (found, _, console') \<Rightarrow>
          extractPages_ZXing decodeFromCanvas scale (i + 1) pages found console')"

text \<open>
  extractQrCodesFromPdf: the promise resolves to allQrCodes; the console is a side effect
  that the caller does not receive. The model returns both, and \<open>returned\<close> is the part
  the caller gets.
\<close>

definition extractQrCodesFromPdf_ZXing ::
  "('img canvas \<Rightarrow> decode_outcome) \<Rightarrow> real \<Rightarrow> 'img pdf_page list \<Rightarrow>
   (QrCodeInfo list \<times> string list) option" where
  "extractQrCodesFromPdf_ZXing decodeFromCanvas scale pages =
     extractPages_ZXing decodeFromCanvas scale 1 pages [] []"

definition returned :: "('a \<times> string list) option \<Rightarrow> 'a option" where
  "returned r = map_option fst r"

text \<open>
  extractQrCodesFromImage: the image is drawn on a canvas of its own size and scanned by
  the same loop; the geometry is recorded in image pixels and the page number is 1.
\<close>

record 'img image_file =
  im_width :: real
  im_height :: real
  im_pixels :: 'img

definition markerRecord_Image :: "real \<times> real \<Rightarrow> zxing_result \<Rightarrow> QrCodeInfo" where
  "markerRecord_Image dims result =
     (let resultPoints = getResultPoints result;
          minX = Math_min (map pt_x resultPoints);
          maxX = Math_max (map pt_x resultPoints);
          minY = Math_min (map pt_y resultPoints);
          maxY = Math_max (map pt_y resultPoints);
          qrWidth = maxX - minX;
          qrHeight = maxY - minY
      in \<lparr>qr_id = (1, minX, minY),
          qr_data = res_text result,
          qr_imageCrop = \<lparr>loc_x = minX, loc_y = minY, loc_width = qrWidth, loc_height = qrHeight\<rparr>,
          qr_location = \<lparr>loc_x = minX, loc_y = minY, loc_width = qrWidth, loc_height = qrHeight\<rparr>,
          qr_pageNumber = 1,
          qr_pageWidth = fst dims,
          qr_pageHeight = snd dims\<rparr>)"

definition extractQrCodesFromImage ::
  "('img canvas \<Rightarrow> decode_outcome) \<Rightarrow> 'img image_file \<Rightarrow>
   (QrCodeInfo list \<times> string list) option" where
  "extractQrCodesFromImage decodeFromCanvas imageFile =
     (case scanCanvas decodeFromCanvas
             (markerRecord_Image (im_width imageFile, im_height imageFile))
             \<lparr>cv_rendered = im_pixels imageFile, cv_fills = []\<rparr> [] [] of
        None \<Rightarrow> None
      | Some (found, _, console) \<Rightarrow> Some (found, console))"

section \<open>JavaScript values of the settings record\<close>

text \<open>
  The customization object is whatever JSON.parse returned: the type annotation
  QrCodeCustomization is erased at run time. A number is a finite value, NaN or an
  infinity.
\<close>

datatype jsnum = Finite real | NaN | PosInfinity | NegInfinity

datatype jsval =
  JUndefined
| JNull
| JBool bool
| JNumber jsnum
| JString string
| JArray "jsval list"
| JObject "(string \<times> jsval) list"

text \<open>Truthiness: false, 0, NaN, the empty string, null and undefined are falsy.\<close>

fun truthy :: "jsval \<Rightarrow> bool" where
  "truthy JUndefined = False"
| "truthy JNull = False"
| "truthy (JBool b) = b"
| "truthy (JNumber (Finite r)) = (r \<noteq> 0)"
| "truthy (JNumber NaN) = False"
| "truthy (JNumber PosInfinity) = True"
| "truthy (JNumber NegInfinity) = True"
| "truthy (JString str) = (str \<noteq> [])"
| "truthy (JArray vs) = True"
| "truthy (JObject fs) = True"

fun typeof :: "jsval \<Rightarrow> string" where
  "typeof JUndefined = ''undefined''"
| "typeof JNull = ''object''"
| "typeof (JBool b) = ''boolean''"
| "typeof (JNumber n) = ''number''"
| "typeof (JString str) = ''string''"
| "typeof (JArray vs) = ''object''"
| "typeof (JObject fs) = ''object''"

text \<open>
  Reading one of the properties color, backgroundColor or size: a TypeError (None) on
  null and undefined, the own property of an object, and undefined on every other
  value (no prototype defines a property of these names).
\<close>

fun getProp :: "jsval \<Rightarrow> string \<Rightarrow> jsval option" where
  "getProp JUndefined k = None"
| "getProp JNull k = None"
| "getProp (JObject fs) k = Some (case map_of fs k of Some v \<Rightarrow> v | None \<Rightarrow> JUndefined)"
| "getProp v k = Some JUndefined"

section \<open>Replacement in a PDF (replaceQrCodeInPdf)\<close>

text \<open>
  The function is modelled for a run in which the libraries are loaded, the 2d context
  of each canvas is available and the generated QR image loads (otherwise the source
  throws and produces no document). The output document of jsPDF is the list of its
  pages, the current page kept apart; of each page the model keeps the format and the
  orientation it was created with and the images added to it.
\<close>

datatype orientation = Portrait | Landscape

record drawImage_call =
  di_x :: real
  di_y :: real
  di_width :: jsval
  di_height :: jsval

record 'img page_canvas =
  pc_rendered :: 'img
  pc_width :: real
  pc_height :: real
  pc_drawn :: "drawImage_call option"

record 'img addImage_call =
  ai_canvas :: "'img page_canvas"
  ai_x :: real
  ai_y :: real
  ai_width :: real
  ai_height :: real

record 'img out_page =
  op_format :: "real \<times> real"
  op_orientation :: orientation
  op_images :: "'img addImage_call list"

record 'img jsPDF =
  doc_before :: "'img out_page list"
  doc_current :: "'img out_page"

definition new_jsPDF :: "orientation \<Rightarrow> real \<times> real \<Rightarrow> 'img jsPDF" where
  "new_jsPDF ori fmt =
     \<lparr>doc_before = [],
      doc_current = \<lparr>op_format = fmt, op_orientation = ori, op_images = []\<rparr>\<rparr>"

definition addPage :: "real \<times> real \<Rightarrow> orientation \<Rightarrow> 'img jsPDF \<Rightarrow> 'img jsPDF" where
  "addPage fmt ori d =
     \<lparr>doc_before = doc_before d @ [doc_current d],
      doc_current = \<lparr>op_format = fmt, op_orientation = ori, op_images = []\<rparr>\<rparr>"

definition addImage ::
  "'img page_canvas \<Rightarrow> real \<Rightarrow> real \<Rightarrow> real \<Rightarrow> real \<Rightarrow> 'img jsPDF \<Rightarrow> 'img jsPDF" where
  "addImage cnv ix iy iw ih d =
     d\<lparr>doc_current := (doc_current d)\<lparr>op_images := op_images (doc_current d) @
        [\<lparr>ai_canvas = cnv, ai_x = ix, ai_y = iy, ai_width = iw, ai_height = ih\<rparr>]\<rparr>\<rparr>"

definition doc_pages :: "'img jsPDF \<Rightarrow> 'img out_page list" where
  "doc_pages d = doc_before d @ [doc_current d]"

text \<open>Reading \<^verbatim>\<open>customization.size\<close> of the customization object.\<close>

definition customization_size :: "jsval \<Rightarrow> jsval" where
  "customization_size customization =
     (case getProp customization ''size'' of Some v \<Rightarrow> v | None \<Rightarrow> JUndefined)"

text \<open>The loop over the pages of the source document, from page i on.\<close>

fun replacePages ::
  "QrCodeInfo \<Rightarrow> jsval \<Rightarrow> nat \<Rightarrow> 'img pdf_page list \<Rightarrow> 'img jsPDF \<Rightarrow> 'img jsPDF" where
  "replacePages qrToReplace customization i [] newPdf = newPdf"
| "replacePages qrToReplace customization i (page # pages) newPdf =
     (let viewport = getViewport page 1;
          newPdf1 =
            (if i > 1
             then addPage viewport
                    (if fst viewport > snd viewport then Landscape else Portrait) newPdf
             else newPdf);
          cnv = \<lparr>pc_rendered = pg_render page 1,
                 pc_width = fst viewport, pc_height = snd viewport,
                 pc_drawn =
                   (if i = qr_pageNumber qrToReplace
                    then Some \<lparr>di_x = loc_x (qr_location qrToReplace),
                               di_y = loc_y (qr_location qrToReplace),
                               di_width = customization_size customization,
                               di_height = customization_size customization\<rparr>
                    else None)\<rparr>
      in replacePages qrToReplace customization (i + 1) pages
           (addImage cnv 0 0 (fst viewport) (snd viewport) newPdf1))"

definition replaceQrCodeInPdf ::
  "'img pdf_page list \<Rightarrow> QrCodeInfo \<Rightarrow> jsval \<Rightarrow> 'img jsPDF" where
  "replaceQrCodeInPdf pdfDoc qrToReplace customization =
     replacePages qrToReplace customization 1 pdfDoc
       (new_jsPDF
          (if qr_pageWidth qrToReplace > qr_pageHeight qrToReplace then Landscape else Portrait)
          (qr_pageWidth qrToReplace, qr_pageHeight qrToReplace))"

section \<open>The application state and its handlers (App.tsx)\<close>

text \<open>
  The messages of the user interface are Ukrainian sentences in the source; the
  constants below stand for them, with their meaning in English.
\<close>

definition msgSettingsFormat :: string where
  "msgSettingsFormat = ''Invalid settings file format.''"

definition msgSettingsUnreadable :: string where
  "msgSettingsUnreadable = ''Could not read the settings file.''"

definition msgUnsupportedType :: string where
  "msgUnsupportedType = ''Unsupported file type: ''"

definition msgUnknownError :: string where
  "msgUnknownError = ''Unknown error''"

definition msgSomeFailed :: string where
  "msgSomeFailed = ''Could not process some files: ''"

definition msgNoneProcessed :: string where
  "msgNoneProcessed = ''Could not process any of the selected files. ''"

definition msgNoQrCodes :: string where
  "msgNoQrCodes = ''No QR codes found in any of the successfully processed files.''"

record 'c File =
  file_name :: string
  file_type :: string
  file_lastModified :: nat
  file_content :: 'c

text \<open>ProcessedFile; the id is the template string of the file name and lastModified.\<close>

record 'c ProcessedFile =
  pf_file :: "'c File"
  pf_qrCodes :: "QrCodeInfo list"
  pf_id :: "string \<times> nat"

text \<open>
  The state of the component that the two handlers read and write (loadingText, a
  progress caption, is left out).
\<close>

record 'c app_state =
  processedFiles :: "'c ProcessedFile list"
  selectedQr :: "(string \<times> nat) option"
  newUrl :: string
  urlError :: "string option"
  isLoading :: bool
  error :: "string option"
  modifiedFileUrl :: "string option"
  customization :: jsval

definition initialCustomization :: jsval where
  "initialCustomization =
     JObject [(''color'', JString ''#000000''), (''backgroundColor'', JString ''#FFFFFF''),
              (''size'', JNumber (Finite 100))]"

subsection \<open>Importing settings (handleSettingsFileChange)\<close>

text \<open>
  The test \<^verbatim>\<open>settings.color && settings.backgroundColor && typeof settings.size === 'number'\<close>;
  None when reading a property throws.
\<close>

definition settingsAccepted :: "jsval \<Rightarrow> bool option" where
  "settingsAccepted settings =
     (case getProp settings ''color'' of
        None \<Rightarrow> None
      | Some c \<Rightarrow>
          if \<not> truthy c then Some False
          else (case getProp settings ''backgroundColor'' of
                  None \<Rightarrow> None
                | Some b \<Rightarrow>
                    if \<not> truthy b then Some False
                    else (case getProp settings ''size'' of
                            None \<Rightarrow> None
                          | Some sz \<Rightarrow> Some (typeof sz = ''number''))))"

text \<open>
  What the reader yields for the settings file, by what the callback makes of it: a
  result that is not a string, a text on which JSON.parse throws, or a text that
  JSON.parse turns into a value.
\<close>

datatype settings_text = NotText | BadJson | Json jsval

text \<open>
  The onload callback of the reader. Every exception (the result is not a string,
  JSON.parse throws, reading a property throws) is caught and reported as an
  unreadable file.
\<close>

definition settingsOnload :: "settings_text \<Rightarrow> 'c app_state \<Rightarrow> 'c app_state" where
  "settingsOnload text st =
     (case text of
        NotText \<Rightarrow> st\<lparr>error := Some msgSettingsUnreadable\<rparr>
      | BadJson \<Rightarrow> st\<lparr>error := Some msgSettingsUnreadable\<rparr>
      | Json settings \<Rightarrow>
          (case settingsAccepted settings of
             None \<Rightarrow> st\<lparr>error := Some msgSettingsUnreadable\<rparr>
           | Some True \<Rightarrow> st\<lparr>customization := settings\<rparr>
           | Some False \<Rightarrow> st\<lparr>error := Some msgSettingsFormat\<rparr>))"

text \<open>The handler reads the first selected file, if there is one.\<close>

definition handleSettingsFileChange :: "settings_text list \<Rightarrow> 'c app_state \<Rightarrow> 'c app_state" where
  "handleSettingsFileChange files st =
     (case files of
        [] \<Rightarrow> st
      | file # _ \<Rightarrow> settingsOnload file st)"

subsection \<open>Extracting from a batch of files (handleFileChange)\<close>

text \<open>A settled promise: fulfilled with a value, or rejected with a reason, of which
  the handler reads the message (None when the reason has none).\<close>

datatype 'a settled = Fulfilled 'a | Rejected "string option"

text \<open>\<^verbatim>\<open>toLowerCase\<close>, for the letters of ASCII.\<close>

definition lowerChar :: "char \<Rightarrow> char" where
  "lowerChar ch =
     (case map_of (zip ''ABCDEFGHIJKLMNOPQRSTUVWXYZ'' ''abcdefghijklmnopqrstuvwxyz'') ch of
        Some l \<Rightarrow> l
      | None \<Rightarrow> ch)"

definition toLowerCase :: "string \<Rightarrow> string" where
  "toLowerCase str = map lowerChar str"

definition endsWith :: "string \<Rightarrow> string \<Rightarrow> bool" where
  "endsWith str suf = (length suf \<le> length str \<and> drop (length str - length suf) str = suf)"

definition startsWith :: "string \<Rightarrow> string \<Rightarrow> bool" where
  "startsWith str pre = (take (length pre) str = pre)"

fun join :: "string \<Rightarrow> string list \<Rightarrow> string" where
  "join sep [] = []"
| "join sep [a] = a"
| "join sep (a # b # rest) = a @ sep @ join sep (b # rest)"

text \<open>\<^verbatim>\<open>trim\<close>, for the white space of ASCII: space, tab, line feed, vertical tab, form
  feed and carriage return.\<close>

definition isWhitespace :: "char \<Rightarrow> bool" where
  "isWhitespace ch =
     (ch = CHR '' '' \<or> ch = CHR 0x09 \<or> ch = CHR 0x0A \<or> ch = CHR 0x0B \<or>
      ch = CHR 0x0C \<or> ch = CHR 0x0D)"

definition trim :: "string \<Rightarrow> string" where
  "trim str = rev (dropWhile isWhitespace (rev (dropWhile isWhitespace str)))"

definition resetState :: "'c app_state \<Rightarrow> 'c app_state" where
  "resetState st =
     st\<lparr>processedFiles := [], selectedQr := None, newUrl := [], urlError := None,
        isLoading := False, error := None, modifiedFileUrl := None\<rparr>"

text \<open>
  The promise made for one file. The two extraction functions are the services; each is
  given by the settled promise it returns for a file.
\<close>

definition processFile ::
  "('c File \<Rightarrow> QrCodeInfo list settled) \<Rightarrow> ('c File \<Rightarrow> QrCodeInfo list settled) \<Rightarrow>
   'c File \<Rightarrow> 'c ProcessedFile settled" where
  "processFile extractPdf extractImage file =
     (let isPdf = (file_type file = ''application/pdf'' \<or>
                   endsWith (toLowerCase (file_name file)) ''.pdf'');
          isImage = startsWith (file_type file) ''image/''
      in if isPdf then
           (case extractPdf file of
              Fulfilled qrCodes \<Rightarrow>
                Fulfilled \<lparr>pf_file = file, pf_qrCodes = qrCodes,
                           pf_id = (file_name file, file_lastModified file)\<rparr>
            | Rejected reason \<Rightarrow> Rejected reason)
         else if isImage then
           (case extractImage file of
              Fulfilled qrCodes \<Rightarrow>
                Fulfilled \<lparr>pf_file = file, pf_qrCodes = qrCodes,
                           pf_id = (file_name file, file_lastModified file)\<rparr>
            | Rejected reason \<Rightarrow> Rejected reason)
         else Rejected (Some (msgUnsupportedType @ file_name file)))"

text \<open>The body of \<^verbatim>\<open>settledResults.forEach((result, index) => ...)\<close>.\<close>

definition collectResult ::
  "'c File \<times> 'c ProcessedFile settled \<Rightarrow> 'c ProcessedFile list \<times> string list \<Rightarrow>
   'c ProcessedFile list \<times> string list" where
  "collectResult fr acc =
     (case snd fr of
        Fulfilled v \<Rightarrow> (fst acc @ [v], snd acc)
      | Rejected reason \<Rightarrow>
          (fst acc,
           snd acc @ [file_name (fst fr) @ '': '' @
              (case reason of
                 Some m \<Rightarrow> if m \<noteq> [] then m else msgUnknownError
               | None \<Rightarrow> msgUnknownError)]))"

definition collectResults ::
  "('c File \<Rightarrow> QrCodeInfo list settled) \<Rightarrow> ('c File \<Rightarrow> QrCodeInfo list settled) \<Rightarrow>
   'c File list \<Rightarrow> 'c ProcessedFile list \<times> string list" where
  "collectResults extractPdf extractImage fileList =
     fold collectResult
       (zip fileList (map (processFile extractPdf extractImage) fileList)) ([], [])"

definition batchError :: "'c ProcessedFile list \<Rightarrow> string list \<Rightarrow> string option" where
  "batchError successfulFiles failedFileMessages =
     (let currentError0 =
            (if length failedFileMessages > 0
             then msgSomeFailed @ join ''; '' failedFileMessages @ ''. ''
             else []);
          currentError =
            (if length successfulFiles = 0 \<and> length failedFileMessages > 0
             then msgNoneProcessed @ currentError0
             else if length successfulFiles > 0 \<and>
                     list_all (\<lambda>res. length (pf_qrCodes res) = 0) successfulFiles
             then currentError0 @ msgNoQrCodes
             else currentError0)
      in if trim currentError = [] then None else Some (trim currentError))"

definition handleFileChange ::
  "('c File \<Rightarrow> QrCodeInfo list settled) \<Rightarrow> ('c File \<Rightarrow> QrCodeInfo list settled) \<Rightarrow>
   'c File list \<Rightarrow> 'c app_state \<Rightarrow> 'c app_state" where
  "handleFileChange extractPdf extractImage files st =
     (if length files = 0 then st
      else
        let collected = collectResults extractPdf extractImage files
        in (resetState st)
             \<lparr>processedFiles := fst collected,
              error := batchError (fst collected) (snd collected),
              isLoading := False\<rparr>)"

section \<open>Observations on results and sample inputs\<close>

text \<open>The drawImage calls that put a new QR code on a page of the output document.\<close>

definition drawImageCalls :: "'img jsPDF \<Rightarrow> drawImage_call list" where
  "drawImageCalls d =
     List.map_filter (\<lambda>a. pc_drawn (ai_canvas a)) (concat (map op_images (doc_pages d)))"

text \<open>\<^verbatim>\<open>result.reason.message || <unknown error>\<close> of a rejected promise.\<close>

definition reasonText :: "string option \<Rightarrow> string" where
  "reasonText reason =
     (case reason of Some m \<Rightarrow> if m \<noteq> [] then m else msgUnknownError | None \<Rightarrow> msgUnknownError)"

text \<open>What a settled promise contributes to the successes and to the failure messages.\<close>

definition successOf :: "'a settled \<Rightarrow> 'a option" where
  "successOf r = (case r of Fulfilled v \<Rightarrow> Some v | Rejected reason \<Rightarrow> None)"

definition failureOf :: "'c File \<Rightarrow> 'a settled \<Rightarrow> string option" where
  "failureOf f r =
     (case r of Fulfilled v \<Rightarrow> None
      | Rejected reason \<Rightarrow> Some (file_name f @ '': '' @ reasonText reason))"

text \<open>A marker record, a batch of three files and a document of two pages.\<close>

definition qrSample :: QrCodeInfo where
  "qrSample = \<lparr>qr_id = (1, 150, 150), qr_data = ''https://example.com'',
            qr_imageCrop = \<lparr>loc_x = 150, loc_y = 150, loc_width = 300, loc_height = 300\<rparr>,
            qr_location = \<lparr>loc_x = 50, loc_y = 50, loc_width = 100, loc_height = 100\<rparr>,
            qr_pageNumber = 1, qr_pageWidth = 600, qr_pageHeight = 800\<rparr>"

definition batchOfThree :: "unit File list" where
  "batchOfThree =
     [\<lparr>file_name = ''a.PDF'', file_type = [], file_lastModified = 1, file_content = ()\<rparr>,
      \<lparr>file_name = ''notes.txt'', file_type = ''text/plain'', file_lastModified = 2, file_content = ()\<rparr>,
      \<lparr>file_name = ''c.png'', file_type = ''image/png'', file_lastModified = 3, file_content = ()\<rparr>]"

definition twoPageDoc :: "unit pdf_page list" where
  "twoPageDoc =
     [\<lparr>pg_width = 600, pg_height = 800, pg_render = (\<lambda>s. ())\<rparr>,
      \<lparr>pg_width = 800, pg_height = 600, pg_render = (\<lambda>s. ())\<rparr>]"

text \<open>The record that the extraction at scale 3 makes of a code on the second page.\<close>

definition markerOnPageTwo :: QrCodeInfo where
  "markerOnPageTwo =
     markerRecord_ZXing 2 3 (getViewport (twoPageDoc ! 1) 3)
       \<lparr>res_text = ''https://example.com'',
        res_point = \<lparr>pt_x = 150, pt_y = 450\<rparr>,
        res_points = [\<lparr>pt_x = 150, pt_y = 150\<rparr>, \<lparr>pt_x = 450, pt_y = 150\<rparr>]\<rparr>"

definition emptyState :: "unit app_state" where
  "emptyState =
     \<lparr>processedFiles = [], selectedQr = None, newUrl = [], urlError = None,
      isLoading = False, error = None, modifiedFileUrl = None,
      customization = initialCustomization\<rparr>"

section \<open>Pixels of the scanned image data\<close>









section \<open>Bounding boxes, and stand-ins for the ZXing detector\<close>

text \<open>
  The axis-aligned bounding box of the four corners that jsQR reports: the minimum and
  the maximum of their coordinates (the white-out starts from these, then rounds and
  pads).
\<close>

definition cornerBox :: "jsqr_location \<Rightarrow> QrCodeLocation" where
  "cornerBox l =
     (let minX = min4 (pt_x (topLeftCorner l)) (pt_x (topRightCorner l))
                      (pt_x (bottomLeftCorner l)) (pt_x (bottomRightCorner l));
          maxX = max4 (pt_x (topLeftCorner l)) (pt_x (topRightCorner l))
                      (pt_x (bottomLeftCorner l)) (pt_x (bottomRightCorner l));
          minY = min4 (pt_y (topLeftCorner l)) (pt_y (topRightCorner l))
                      (pt_y (bottomLeftCorner l)) (pt_y (bottomRightCorner l));
          maxY = max4 (pt_y (topLeftCorner l)) (pt_y (topRightCorner l))
                      (pt_y (bottomLeftCorner l)) (pt_y (bottomRightCorner l))
      in \<lparr>loc_x = minX, loc_y = minY, loc_width = maxX - minX, loc_height = maxY - minY\<rparr>)"

text \<open>The bounding box of the result points of ZXing.\<close>

definition resultBox :: "zxing_result \<Rightarrow> QrCodeLocation" where
  "resultBox result =
     \<lparr>loc_x = Math_min (map pt_x (getResultPoints result)),
      loc_y = Math_min (map pt_y (getResultPoints result)),
      loc_width = Math_max (map pt_x (getResultPoints result))
                    - Math_min (map pt_x (getResultPoints result)),
      loc_height = Math_max (map pt_y (getResultPoints result))
                    - Math_min (map pt_y (getResultPoints result))\<rparr>"

text \<open>
  A code that jsQR reports slightly turned (its corners are not on common horizontal
  and vertical lines), and a code turned by half a turn, whose own top left corner is
  the bottom right one on the page.
\<close>

definition skewedCode :: jsqr_code where
  "skewedCode =
     \<lparr>code_data = ''https://example.com'',
      code_location =
        \<lparr>topLeftCorner = \<lparr>pt_x = 40, pt_y = 44\<rparr>, topRightCorner = \<lparr>pt_x = 100, pt_y = 40\<rparr>,
         bottomLeftCorner = \<lparr>pt_x = 44, pt_y = 104\<rparr>,
         bottomRightCorner = \<lparr>pt_x = 104, pt_y = 100\<rparr>\<rparr>\<rparr>"

definition rotatedCode :: jsqr_code where
  "rotatedCode =
     \<lparr>code_data = ''https://example.com'',
      code_location =
        \<lparr>topLeftCorner = \<lparr>pt_x = 400, pt_y = 400\<rparr>, topRightCorner = \<lparr>pt_x = 100, pt_y = 400\<rparr>,
         bottomLeftCorner = \<lparr>pt_x = 400, pt_y = 100\<rparr>,
         bottomRightCorner = \<lparr>pt_x = 100, pt_y = 100\<rparr>\<rparr>\<rparr>"

text \<open>
  A detector in which every failure that is not NotFoundException is turned into
  NotFoundException.
\<close>

definition asNotFound :: "('img canvas \<Rightarrow> decode_outcome) \<Rightarrow> 'img canvas \<Rightarrow> decode_outcome" where
  "asNotFound decodeFromCanvas c =
     (case decodeFromCanvas c of
        Decoded result \<Rightarrow> Decoded result
      | NotFoundException \<Rightarrow> NotFoundException
      | OtherException err \<Rightarrow> NotFoundException)"

text \<open>What a scan leaves, without the console.\<close>

definition foundAndCanvas ::
  "(QrCodeInfo list \<times> 'img canvas \<times> string list) option \<Rightarrow> (QrCodeInfo list \<times> 'img canvas) option" where
  "foundAndCanvas r = map_option (\<lambda>t. (fst t, fst (snd t))) r"

text \<open>
  A decoded result with finder pattern centres at (150, 450), (150, 150) and
  (450, 150), and two detectors that find it on a canvas on which nothing was blanked
  yet: afterwards one throws an unexpected exception, the other NotFoundException.
\<close>

definition sampleResult :: zxing_result where
  "sampleResult =
     \<lparr>res_text = ''https://example.com'',
      res_point = \<lparr>pt_x = 150, pt_y = 450\<rparr>,
      res_points = [\<lparr>pt_x = 150, pt_y = 150\<rparr>, \<lparr>pt_x = 450, pt_y = 150\<rparr>]\<rparr>"

definition failingDetector :: "unit canvas \<Rightarrow> decode_outcome" where
  "failingDetector c =
     (if cv_fills c = [] then Decoded sampleResult else OtherException ''ChecksumException'')"

definition quietDetector :: "unit canvas \<Rightarrow> decode_outcome" where
  "quietDetector c =
     (if cv_fills c = [] then Decoded sampleResult else NotFoundException)"

text \<open>
  A pixel is overwritten by the fills of the canvas when its square lies inside one of
  the filled rectangles. The padded box of a result is the box that the jsQR version
  whitens, taken for the result points: floor and ceiling of the extremes, extended by
  the padding.
\<close>

definition pixelOverwritten :: "'img canvas \<Rightarrow> int \<Rightarrow> int \<Rightarrow> bool" where
  "pixelOverwritten c px py =
     list_ex (\<lambda>r. loc_x r \<le> real_of_int px \<and> real_of_int px + 1 \<le> loc_x r + loc_width r \<and>
                   loc_y r \<le> real_of_int py \<and> real_of_int py + 1 \<le> loc_y r + loc_height r)
       (cv_fills c)"

definition inPaddedBox :: "zxing_result \<Rightarrow> int \<Rightarrow> int \<Rightarrow> bool" where
  "inPaddedBox result px py =
     (\<lfloor>Math_min (map pt_x (getResultPoints result))\<rfloor> - padding \<le> px \<and>
      px < \<lceil>Math_max (map pt_x (getResultPoints result))\<rceil> + padding \<and>
      \<lfloor>Math_min (map pt_y (getResultPoints result))\<rfloor> - padding \<le> py \<and>
      py < \<lceil>Math_max (map pt_y (getResultPoints result))\<rceil> + padding)"

section \<open>Pixels of the canvas of the ZXing versions\<close>






section \<open>The older handler for batches of PDF files (handleFileChange, PDF only)\<close>











section \<open>Importing settings\<close>

text \<open>
  C7. Importing a settings record that lacks the size field, or whose size is not a
  number, or whose color or backgroundColor is missing, is rejected with the
  settings-format error, and the state is otherwise unchanged: the customization
  (color, backgroundColor, size) stays as it was.
\<close>

theorem import_rejects_malformed_settings:
  assumes "map_of props ''size'' = None
           \<or> (\<exists>v. map_of props ''size'' = Some v \<and> typeof v \<noteq> ''number'')
           \<or> map_of props ''color'' = None
           \<or> map_of props ''backgroundColor'' = None"
  shows "handleSettingsFileChange (Json (JObject props) # others) st
           = st\<lparr>error := Some msgSettingsFormat\<rparr>"
proof -
  have "settingsAccepted (JObject props) = Some False"
    using assms by (auto simp: settingsAccepted_def split: option.splits)
  then show ?thesis
    by (simp add: handleSettingsFileChange_def settingsOnload_def)
qed

theorem import_rejects_malformed_settings_witness:
  "handleSettingsFileChange
     [Json (JObject [(''color'', JString ''#112233''), (''backgroundColor'', JString ''#FFFFFF'')])]
     emptyState
   = \<lparr>processedFiles = [], selectedQr = None, newUrl = [], urlError = None,
      isLoading = False, error = Some msgSettingsFormat, modifiedFileUrl = None,
      customization = initialCustomization\<rparr>"
  using import_rejects_malformed_settings
    [of "[(''color'', JString ''#112233''), (''backgroundColor'', JString ''#FFFFFF'')]" "[]"
        emptyState]
  by (simp add: emptyState_def)

subsection \<open>The drawImage calls of a replacement\<close>

lemma drawImageCalls_new [simp]: "drawImageCalls (new_jsPDF ori fmt) = []"
  by (simp add: drawImageCalls_def new_jsPDF_def doc_pages_def map_filter_simps)

lemma drawImageCalls_addPage [simp]: "drawImageCalls (addPage fmt ori d) = drawImageCalls d"
  by (simp add: drawImageCalls_def addPage_def doc_pages_def map_filter_simps)

lemma map_filter_append:
  "List.map_filter f (xs @ ys) = List.map_filter f xs @ List.map_filter f ys"
  by (simp add: List.map_filter_def)

lemma drawImageCalls_addImage [simp]:
  "drawImageCalls (addImage cnv ix iy iw ih d) =
     drawImageCalls d @ (case pc_drawn cnv of None \<Rightarrow> [] | Some c \<Rightarrow> [c])"
  by (simp add: drawImageCalls_def addImage_def doc_pages_def map_filter_append map_filter_simps
           split: option.splits)

lemma drawImageCalls_replacePages:
  "drawImageCalls (replacePages qr cust i pages d) =
     drawImageCalls d @
       (if i \<le> qr_pageNumber qr \<and> qr_pageNumber qr < i + length pages
        then [\<lparr>di_x = loc_x (qr_location qr), di_y = loc_y (qr_location qr),
               di_width = customization_size cust, di_height = customization_size cust\<rparr>]
        else [])"
proof (induction pages arbitrary: i d)
  case Nil
  then show ?case by simp
next
  case (Cons page pages)
  show ?case
    by (simp add: Cons.IH Let_def)
qed

text \<open>
  C10. The validation of an imported settings record accepts every record whose color
  and backgroundColor are truthy and whose size is of type number, whatever the number
  (zero, negative, NaN): no error is reported, the customization becomes the parsed
  record as it is, with every further field it has, and a later replacement draws the
  new code with that size as its width and its height.
\<close>

theorem import_accepts_any_number_as_size:
  assumes "map_of props ''color'' = Some c" and "truthy c"
    and "map_of props ''backgroundColor'' = Some b" and "truthy b"
    and "map_of props ''size'' = Some (JNumber n)"
  shows "handleSettingsFileChange (Json (JObject props) # others) st
           = st\<lparr>customization := JObject props\<rparr>
         \<and> drawImageCalls (replaceQrCodeInPdf pdfDoc qr (JObject props))
           = (if 1 \<le> qr_pageNumber qr \<and> qr_pageNumber qr \<le> length pdfDoc
              then [\<lparr>di_x = loc_x (qr_location qr), di_y = loc_y (qr_location qr),
                     di_width = JNumber n, di_height = JNumber n\<rparr>]
              else [])"
proof -
  have "settingsAccepted (JObject props) = Some True"
    using assms by (simp add: settingsAccepted_def)
  then have first: "handleSettingsFileChange (Json (JObject props) # others) st
      = st\<lparr>customization := JObject props\<rparr>"
    by (simp add: handleSettingsFileChange_def settingsOnload_def)
  have "customization_size (JObject props) = JNumber n"
    using assms(5) by (simp add: customization_size_def)
  then have second: "drawImageCalls (replaceQrCodeInPdf pdfDoc qr (JObject props))
           = (if 1 \<le> qr_pageNumber qr \<and> qr_pageNumber qr \<le> length pdfDoc
              then [\<lparr>di_x = loc_x (qr_location qr), di_y = loc_y (qr_location qr),
                     di_width = JNumber n, di_height = JNumber n\<rparr>]
              else [])"
    by (auto simp: replaceQrCodeInPdf_def drawImageCalls_replacePages)
  from first second show ?thesis by simp
qed

theorem import_accepts_any_number_as_size_witness:
  "handleSettingsFileChange
     [Json (JObject [(''color'', JString ''#112233''), (''backgroundColor'', JString ''#FFFFFF''),
                     (''size'', JNumber NaN), (''note'', JString ''extra'')])]
     emptyState
   = \<lparr>processedFiles = [], selectedQr = None, newUrl = [], urlError = None,
      isLoading = False, error = None, modifiedFileUrl = None,
      customization =
        JObject [(''color'', JString ''#112233''), (''backgroundColor'', JString ''#FFFFFF''),
                 (''size'', JNumber NaN), (''note'', JString ''extra'')]\<rparr>
   \<and> drawImageCalls
        (replaceQrCodeInPdf
           [\<lparr>pg_width = 600, pg_height = 800, pg_render = (\<lambda>s. ())\<rparr>]
           qrSample
           (JObject [(''color'', JString ''#112233''), (''backgroundColor'', JString ''#FFFFFF''),
                     (''size'', JNumber NaN), (''note'', JString ''extra'')]))
     = [\<lparr>di_x = 50, di_y = 50, di_width = JNumber NaN, di_height = JNumber NaN\<rparr>]"
  using import_accepts_any_number_as_size
    [of "[(''color'', JString ''#112233''), (''backgroundColor'', JString ''#FFFFFF''),
          (''size'', JNumber NaN), (''note'', JString ''extra'')]"
        "JString ''#112233''" "JString ''#FFFFFF''" NaN "[]" emptyState
        "[\<lparr>pg_width = 600, pg_height = 800, pg_render = (\<lambda>s. ())\<rparr>]" qrSample]
  by (simp add: emptyState_def qrSample_def)

section \<open>Page sizes of the output document\<close>

lemma formats_replacePages:
  "0 < i \<Longrightarrow> map op_format (doc_pages (replacePages qr cust i pages d)) =
     map op_format (doc_pages d) @
       map (\<lambda>p. (pg_width p, pg_height p)) (if i > 1 then pages else tl pages)"
proof (induction pages arbitrary: i d)
  case Nil
  then show ?case by simp
next
  case (Cons page pages)
  then show ?case
    by (simp add: Let_def doc_pages_def addPage_def addImage_def getViewport_def)
qed

text \<open>
  Every output page after the first has the size of its source page; the first output
  page has the page size stored in the marker record.
\<close>

lemma formats_replaceQrCodeInPdf:
  "map op_format (doc_pages (replaceQrCodeInPdf pdfDoc qr cust)) =
     (qr_pageWidth qr, qr_pageHeight qr) # map (\<lambda>p. (pg_width p, pg_height p)) (tl pdfDoc)"
proof -
  have "map op_format (doc_pages (new_jsPDF ori fmt :: 'a jsPDF)) = [fmt]" for ori fmt
    by (simp add: doc_pages_def new_jsPDF_def)
  then show ?thesis
    by (simp add: replaceQrCodeInPdf_def formats_replacePages)
qed

text \<open>
  C8. The specification asks that every output page, the first included, has the size and the
  orientation of its own source page, wherever the replaced marker was found. For a
  document whose first page is 600 by 800 (portrait) and whose second page is 800 by
  600 (landscape), with the marker on the second page, the first output page is created
  800 by 600 in landscape: the size of the marker's page, not of the first page.
\<close>

theorem first_output_page_takes_marker_page_size:
  "map (\<lambda>p. (op_format p, op_orientation p))
     (doc_pages (replaceQrCodeInPdf twoPageDoc markerOnPageTwo initialCustomization))
   = [((800, 600), Landscape), ((800, 600), Landscape)]
   \<and> map (\<lambda>p. (pg_width p, pg_height p)) twoPageDoc = [(600, 800), (800, 600)]"
  by (simp add: replaceQrCodeInPdf_def twoPageDoc_def markerOnPageTwo_def markerRecord_ZXing_def
        getViewport_def getResultPoints_def Let_def doc_pages_def new_jsPDF_def addPage_def
        addImage_def)

section \<open>Batches of files\<close>

lemma fold_collectResult:
  "fold collectResult (zip fs (map g fs)) acc =
     (fst acc @ List.map_filter (\<lambda>f. successOf (g f)) fs,
      snd acc @ List.map_filter (\<lambda>f. failureOf f (g f)) fs)"
proof (induction fs arbitrary: acc)
  case Nil
  then show ?case by (simp add: map_filter_simps)
next
  case (Cons f fs)
  have step: "collectResult (f, g f) acc =
      (fst acc @ (case successOf (g f) of None \<Rightarrow> [] | Some v \<Rightarrow> [v]),
       snd acc @ (case failureOf f (g f) of None \<Rightarrow> [] | Some m \<Rightarrow> [m]))"
    by (cases "g f") (simp_all add: collectResult_def successOf_def failureOf_def reasonText_def)
  have "fold collectResult (zip (f # fs) (map g (f # fs))) acc =
        fold collectResult (zip fs (map g fs)) (collectResult (f, g f) acc)"
    by simp
  also have "\<dots> = (fst (collectResult (f, g f) acc) @ List.map_filter (\<lambda>f. successOf (g f)) fs,
      snd (collectResult (f, g f) acc) @ List.map_filter (\<lambda>f. failureOf f (g f)) fs)"
    by (rule Cons.IH)
  also have "\<dots> = (fst acc @ List.map_filter (\<lambda>f. successOf (g f)) (f # fs),
      snd acc @ List.map_filter (\<lambda>f. failureOf f (g f)) (f # fs))"
    by (simp add: step map_filter_simps split: option.splits)
  finally show ?case .
qed

lemma collectResults_eq:
  "collectResults eP eI files =
     (List.map_filter (\<lambda>f. successOf (processFile eP eI f)) files,
      List.map_filter (\<lambda>f. failureOf f (processFile eP eI f)) files)"
  by (simp add: collectResults_def fold_collectResult)

text \<open>A file that is neither a PDF nor an image is rejected, whatever the services do.\<close>

lemma processFile_unsupported:
  "file_type f \<noteq> ''application/pdf'' \<Longrightarrow> \<not> endsWith (toLowerCase (file_name f)) ''.pdf'' \<Longrightarrow>
   \<not> startsWith (file_type f) ''image/'' \<Longrightarrow>
   processFile eP eI f = Rejected (Some (msgUnsupportedType @ file_name f))"
  by (simp add: processFile_def)

text \<open>
  The handler of the current application: the files that it keeps are exactly those
  whose own promise was fulfilled, in the order of the batch, the messages are those of
  the files whose own promise was rejected, and every file is either kept or reported.
\<close>

lemma handleFileChange_collects_by_file:
  assumes "files \<noteq> []"
  shows "processedFiles (handleFileChange eP eI files st)
           = List.map_filter (\<lambda>f. successOf (processFile eP eI f)) files
       \<and> error (handleFileChange eP eI files st)
           = batchError (List.map_filter (\<lambda>f. successOf (processFile eP eI f)) files)
                        (List.map_filter (\<lambda>f. failureOf f (processFile eP eI f)) files)
       \<and> length (List.map_filter (\<lambda>f. successOf (processFile eP eI f)) files)
           + length (List.map_filter (\<lambda>f. failureOf f (processFile eP eI f)) files) = length files"
proof -
  have len: "length (List.map_filter (\<lambda>f. successOf (g f)) fs)
           + length (List.map_filter (\<lambda>f. failureOf f (g f)) fs) = length fs"
    for g :: "'a File \<Rightarrow> 'b settled" and fs
    by (induction fs) (auto simp: map_filter_simps successOf_def failureOf_def split: settled.splits)
  show ?thesis
    using assms len[of "processFile eP eI" files]
    by (simp add: handleFileChange_def collectResults_eq Let_def)
qed

text \<open>
  In a batch of three files of which the second is of an unsupported type, this handler
  keeps the first and the third and names the second in the error.
\<close>

lemma handleFileChange_names_unsupported_file:
  "processedFiles
     (handleFileChange (\<lambda>f. Fulfilled [qrSample]) (\<lambda>f. Fulfilled []) batchOfThree emptyState)
     = [\<lparr>pf_file = batchOfThree ! 0, pf_qrCodes = [qrSample], pf_id = (''a.PDF'', 1)\<rparr>,
        \<lparr>pf_file = batchOfThree ! 2, pf_qrCodes = [], pf_id = (''c.png'', 3)\<rparr>]
   \<and> error
     (handleFileChange (\<lambda>f. Fulfilled [qrSample]) (\<lambda>f. Fulfilled []) batchOfThree emptyState)
     = Some ''Could not process some files: notes.txt: Unsupported file type: notes.txt.''"
  using handleFileChange_collects_by_file
    [of batchOfThree "\<lambda>f. Fulfilled [qrSample]" "\<lambda>f. Fulfilled []" emptyState]
  by (simp add: batchOfThree_def processFile_def toLowerCase_def lowerChar_def endsWith_def
        startsWith_def successOf_def failureOf_def reasonText_def map_filter_simps
        batchError_def trim_def isWhitespace_def msgSomeFailed_def msgUnsupportedType_def Let_def)



section \<open>The white-out of the jsQR scan\<close>




















section \<open>Termination of the scan loop\<close>










section \<open>Bounding boxes of found codes\<close>

lemma Math_min_Min: "Math_min (v # vs) = Min (set (v # vs))"
  using Min.set_eq_fold[of v vs] by simp

lemma Math_max_Max: "Math_max (v # vs) = Max (set (v # vs))"
  using Max.set_eq_fold[of v vs] by simp

lemma Math_min_le: "v \<in> set vs \<Longrightarrow> Math_min vs \<le> v"
  by (cases vs) (simp, simp only: Math_min_Min, rule Min_le, simp_all)

lemma Math_max_ge: "v \<in> set vs \<Longrightarrow> v \<le> Math_max vs"
  by (cases vs) (simp, simp only: Math_max_Max, rule Max_ge, simp_all)

text \<open>
  The ZXing versions take the crop, the recorded geometry and the blanked rectangle
  from one bounding box, the minimum and maximum over all result points.
\<close>

lemma markerRecord_ZXing_uses_resultBox:
  "qr_imageCrop (markerRecord_ZXing i scale viewport result) = resultBox result
   \<and> qr_location (markerRecord_ZXing i scale viewport result)
       = \<lparr>loc_x = loc_x (resultBox result) / scale, loc_y = loc_y (resultBox result) / scale,
          loc_width = loc_width (resultBox result) / scale,
          loc_height = loc_height (resultBox result) / scale\<rparr>
   \<and> blankOut result c = c\<lparr>cv_fills := cv_fills c @ [resultBox result]\<rparr>"
  by (simp add: markerRecord_ZXing_def resultBox_def blankOut_def fillRect_def Let_def)

lemma markerRecord_Image_uses_resultBox:
  "qr_imageCrop (markerRecord_Image dims result) = resultBox result
   \<and> qr_location (markerRecord_Image dims result) = resultBox result"
  by (simp add: markerRecord_Image_def resultBox_def Let_def)

lemma resultBox_encloses_points:
  assumes "p \<in> set (getResultPoints result)"
  shows "loc_x (resultBox result) \<le> pt_x p \<and> pt_x p \<le> loc_x (resultBox result) + loc_width (resultBox result)
       \<and> loc_y (resultBox result) \<le> pt_y p \<and> pt_y p \<le> loc_y (resultBox result) + loc_height (resultBox result)"
proof -
  have "pt_x p \<in> set (map pt_x (getResultPoints result))"
       "pt_y p \<in> set (map pt_y (getResultPoints result))"
    using assms by simp_all
  then show ?thesis
    using Math_min_le Math_max_ge by (simp add: resultBox_def)
qed

lemma resultBox_positive:
  assumes "p \<in> set (getResultPoints result)" "q \<in> set (getResultPoints result)"
    and "pt_x p < pt_x q"
    and "p' \<in> set (getResultPoints result)" "q' \<in> set (getResultPoints result)"
    and "pt_y p' < pt_y q'"
  shows "0 < loc_width (resultBox result) \<and> 0 < loc_height (resultBox result)"
proof -
  have "loc_x (resultBox result) \<le> pt_x p"
       "pt_x q \<le> loc_x (resultBox result) + loc_width (resultBox result)"
       "loc_y (resultBox result) \<le> pt_y p'"
       "pt_y q' \<le> loc_y (resultBox result) + loc_height (resultBox result)"
    using assms resultBox_encloses_points by blast+
  then show ?thesis using assms(3,6) by linarith
qed

text \<open>A page with one code: the scan with jsQR returns the record made of that code.\<close>

lemma scanPage_jsQR_single_code:
  assumes "jsQR imageData = Some code"
    and "jsQR (whiteOut (code_location code) imageData) = None"
  shows "scanPage_jsQR jsQR i scale viewport imageData allQrCodes
           = Some (allQrCodes @ [markerRecord_jsQR i scale viewport code],
                   whiteOut (code_location code) imageData)"
  using assms
  by (subst scanPage_jsQR.simps, simp, subst scanPage_jsQR.simps, simp)

text \<open>
  C3. The specification asks that crop, recorded geometry and suppression all use the bounding
  box given by minimum and maximum over the four corners, never a difference of two
  corner coordinates. In the jsQR version only the white-out does; crop and recorded
  geometry start at the top left corner and take the width from the top right corner
  and the height from the bottom left corner. For a slightly turned code with corners
  (40, 44), (100, 40), (44, 104), (104, 100) the crop is the rectangle at (40, 44) of
  size 60 by 60, while the bounding box of the corners is at (40, 40) of size 64 by 64.
\<close>

theorem crop_and_geometry_from_two_corners:
  "qr_imageCrop (markerRecord_jsQR 1 3 (1800, 2400) skewedCode)
     = \<lparr>loc_x = 40, loc_y = 44, loc_width = 60, loc_height = 60\<rparr>
   \<and> qr_location (markerRecord_jsQR 1 3 (1800, 2400) skewedCode)
     = \<lparr>loc_x = 40 / 3, loc_y = 44 / 3, loc_width = 20, loc_height = 20\<rparr>
   \<and> cornerBox (code_location skewedCode)
     = \<lparr>loc_x = 40, loc_y = 40, loc_width = 64, loc_height = 64\<rparr>"
  by (simp add: markerRecord_jsQR_def skewedCode_def cornerBox_def min4_def max4_def Let_def)

text \<open>
  C9. The specification asks that every record has a positive width and height, for turned codes
  too. In the jsQR version a code turned by half a turn, with its own top left corner
  at (400, 400) and its top right corner at (100, 400), is recorded with width and
  height -100 (in points, at scale 3), while the bounding box of its corners is 300 by
  300 pixels.
\<close>

theorem rotated_code_gets_negative_size:
  "qr_location (markerRecord_jsQR 1 3 (1800, 2400) rotatedCode)
     = \<lparr>loc_x = 400 / 3, loc_y = 400 / 3, loc_width = - 100, loc_height = - 100\<rparr>
   \<and> cornerBox (code_location rotatedCode)
     = \<lparr>loc_x = 100, loc_y = 100, loc_width = 300, loc_height = 300\<rparr>"
  by (simp add: markerRecord_jsQR_def rotatedCode_def cornerBox_def min4_def max4_def Let_def)

section \<open>Unexpected failures of the ZXing detector\<close>

lemma scanCanvas_error_as_notFound:
  assumes "scanCanvas decode mkInfo c acc console = Some y"
  shows "scanCanvas (asNotFound decode) mkInfo c acc console' = Some (fst y, fst (snd y), console')"
proof (rule scanCanvas.raw_induct
    [where P = "\<lambda>decode mkInfo c acc console y.
        scanCanvas (asNotFound decode) mkInfo c acc console' = Some (fst y, fst (snd y), console')",
     OF _ assms])
  fix scan and decode :: "'a canvas \<Rightarrow> decode_outcome" and mkInfo c acc console y
  assume IH: "\<And>decode mkInfo c acc console y. scan decode mkInfo c acc console = Some y \<Longrightarrow>
      scanCanvas (asNotFound decode) mkInfo c acc console' = Some (fst y, fst (snd y), console')"
    and step: "(case decode c of
        Decoded result \<Rightarrow> scan decode mkInfo (blankOut result c) (acc @ [mkInfo result]) console
      | NotFoundException \<Rightarrow> Some (acc, c, console)
      | OtherException err \<Rightarrow> Some (acc, c, console @ [err])) = Some y"
  show "scanCanvas (asNotFound decode) mkInfo c acc console' = Some (fst y, fst (snd y), console')"
  proof (cases "decode c")
    case (Decoded result)
    with step have "scan decode mkInfo (blankOut result c) (acc @ [mkInfo result]) console = Some y"
      by simp
    from IH[OF this] show ?thesis
      using Decoded by (subst scanCanvas.simps) (simp add: asNotFound_def)
  next
    case NotFoundException
    with step show ?thesis
      by (subst scanCanvas.simps) (auto simp: asNotFound_def)
  next
    case (OtherException err)
    with step show ?thesis
      by (subst scanCanvas.simps) (auto simp: asNotFound_def)
  qed
qed

lemma scanCanvas_notFound_as_error:
  assumes "scanCanvas decode' mkInfo c acc console' = Some y"
  shows "decode' = asNotFound decode \<longrightarrow>
         (\<exists>l. scanCanvas decode mkInfo c acc console = Some (fst y, fst (snd y), l))"
proof (rule scanCanvas.raw_induct
    [where P = "\<lambda>decode' mkInfo c acc console' y. decode' = asNotFound decode \<longrightarrow>
         (\<exists>l. scanCanvas decode mkInfo c acc console = Some (fst y, fst (snd y), l))",
     OF _ assms])
  fix scan and decode' :: "'a canvas \<Rightarrow> decode_outcome" and mkInfo c acc console' y
  assume IH: "\<And>decode' mkInfo c acc console' y. scan decode' mkInfo c acc console' = Some y \<Longrightarrow>
      decode' = asNotFound decode \<longrightarrow>
         (\<exists>l. scanCanvas decode mkInfo c acc console = Some (fst y, fst (snd y), l))"
    and step: "(case decode' c of
        Decoded result \<Rightarrow> scan decode' mkInfo (blankOut result c) (acc @ [mkInfo result]) console'
      | NotFoundException \<Rightarrow> Some (acc, c, console')
      | OtherException err \<Rightarrow> Some (acc, c, console' @ [err])) = Some y"
  show "decode' = asNotFound decode \<longrightarrow>
         (\<exists>l. scanCanvas decode mkInfo c acc console = Some (fst y, fst (snd y), l))"
  proof
    assume d: "decode' = asNotFound decode"
    show "\<exists>l. scanCanvas decode mkInfo c acc console = Some (fst y, fst (snd y), l)"
    proof (cases "decode c")
      case (Decoded result)
      then have "decode' c = Decoded result" using d by (simp add: asNotFound_def)
      with step have "scan decode' mkInfo (blankOut result c) (acc @ [mkInfo result]) console' = Some y"
        by simp
      from IH[OF this] d show ?thesis
        using Decoded by (subst scanCanvas.simps) simp
    next
      case NotFoundException
      then have "decode' c = NotFoundException" using d by (simp add: asNotFound_def)
      with step NotFoundException show ?thesis
        by (subst scanCanvas.simps) auto
    next
      case (OtherException err)
      then have "decode' c = NotFoundException" using d by (simp add: asNotFound_def)
      with step OtherException show ?thesis
        by (subst scanCanvas.simps) auto
    qed
  qed
qed

lemma foundAndCanvas_asNotFound:
  "foundAndCanvas (scanCanvas (asNotFound decode) mkInfo c acc console')
     = foundAndCanvas (scanCanvas decode mkInfo c acc console)"
proof (cases "scanCanvas decode mkInfo c acc console")
  case (Some y)
  from scanCanvas_error_as_notFound[OF Some, of console'] Some show ?thesis
    by (simp add: foundAndCanvas_def)
next
  case None
  show ?thesis
  proof (cases "scanCanvas (asNotFound decode) mkInfo c acc console'")
    case None': None
    with None show ?thesis by (simp add: foundAndCanvas_def)
  next
    case (Some y)
    from scanCanvas_notFound_as_error[OF Some, of decode console] None show ?thesis
      by simp
  qed
qed

lemma extractPages_asNotFound:
  "returned (extractPages_ZXing (asNotFound decode) scale i pages acc console')
     = returned (extractPages_ZXing decode scale i pages acc console)"
proof (induction pages arbitrary: i acc console console')
  case Nil
  show ?case by (simp add: returned_def)
next
  case (Cons page pages)
  let ?mk = "markerRecord_ZXing i scale (getViewport page scale)"
  let ?c = "\<lparr>cv_rendered = pg_render page scale, cv_fills = []\<rparr>"
  have eq: "foundAndCanvas (scanCanvas (asNotFound decode) ?mk ?c acc console')
     = foundAndCanvas (scanCanvas decode ?mk ?c acc console)"
    by (rule foundAndCanvas_asNotFound)
  show ?case
  proof (cases "scanCanvas decode ?mk ?c acc console")
    case None
    with eq have "scanCanvas (asNotFound decode) ?mk ?c acc console' = None"
      by (simp add: foundAndCanvas_def)
    with None show ?thesis by (simp add: returned_def)
  next
    case (Some y)
    obtain found cv l where y: "y = (found, cv, l)" by (cases y) auto
    from eq Some y obtain l' where
      s': "scanCanvas (asNotFound decode) ?mk ?c acc console' = Some (found, cv, l')"
      by (auto simp: foundAndCanvas_def)
    show ?thesis
      using Some y s' Cons.IH[of "i + 1" found l' l] by simp
  qed
qed

lemma scanCanvas_once_then_notFound:
  assumes "decode c = Decoded r" "decode (blankOut r c) = NotFoundException"
  shows "scanCanvas decode mkInfo c acc console = Some (acc @ [mkInfo r], blankOut r c, console)"
  using assms
  by (subst scanCanvas.simps, simp, subst scanCanvas.simps, simp)

lemma scanCanvas_once_then_error:
  assumes "decode c = Decoded r" "decode (blankOut r c) = OtherException err"
  shows "scanCanvas decode mkInfo c acc console
           = Some (acc @ [mkInfo r], blankOut r c, console @ [err])"
  using assms
  by (subst scanCanvas.simps, simp, subst scanCanvas.simps, simp)

lemma failingDetector_page:
  "scanCanvas failingDetector mkInfo \<lparr>cv_rendered = (), cv_fills = []\<rparr> acc console
     = Some (acc @ [mkInfo sampleResult],
             blankOut sampleResult \<lparr>cv_rendered = (), cv_fills = []\<rparr>,
             console @ [''ChecksumException''])"
  by (rule scanCanvas_once_then_error)
     (simp_all add: failingDetector_def blankOut_def fillRect_def Let_def)

lemma quietDetector_page:
  "scanCanvas quietDetector mkInfo \<lparr>cv_rendered = (), cv_fills = []\<rparr> acc console
     = Some (acc @ [mkInfo sampleResult],
             blankOut sampleResult \<lparr>cv_rendered = (), cv_fills = []\<rparr>,
             console)"
  by (rule scanCanvas_once_then_notFound)
     (simp_all add: quietDetector_def blankOut_def fillRect_def Let_def)


text \<open>
  C5. When the detector fails with an unexpected error, the scan of the page ends there,
  with the markers found so far kept and the error appended to the console; the pages
  that follow are scanned as usual. What the caller receives is what it would receive
  had the detector signalled not-found instead of failing, for a PDF and for an image:
  the returned list does not tell a partially scanned page from a fully scanned one.
\<close>

theorem detector_error_ends_page_like_notFound:
  "(decode c = OtherException err \<longrightarrow>
      scanCanvas decode mkInfo c acc console = Some (acc, c, console @ [err]))
   \<and> returned (extractQrCodesFromPdf_ZXing decode scale pages)
       = returned (extractQrCodesFromPdf_ZXing (asNotFound decode) scale pages)
   \<and> returned (extractQrCodesFromImage decode imageFile)
       = returned (extractQrCodesFromImage (asNotFound decode) imageFile)"
proof (intro conjI impI)
  assume "decode c = OtherException err"
  then show "scanCanvas decode mkInfo c acc console = Some (acc, c, console @ [err])"
    by (subst scanCanvas.simps) simp
next
  show "returned (extractQrCodesFromPdf_ZXing decode scale pages)
       = returned (extractQrCodesFromPdf_ZXing (asNotFound decode) scale pages)"
    using extractPages_asNotFound[of decode scale 1 pages "[]" "[]" "[]"]
    by (simp add: extractQrCodesFromPdf_ZXing_def)
next
  let ?mk = "markerRecord_Image (im_width imageFile, im_height imageFile)"
  let ?c = "\<lparr>cv_rendered = im_pixels imageFile, cv_fills = []\<rparr>"
  have eq: "foundAndCanvas (scanCanvas (asNotFound decode) ?mk ?c [] [])
     = foundAndCanvas (scanCanvas decode ?mk ?c [] [])"
    by (rule foundAndCanvas_asNotFound)
  show "returned (extractQrCodesFromImage decode imageFile)
       = returned (extractQrCodesFromImage (asNotFound decode) imageFile)"
  proof (cases "scanCanvas decode ?mk ?c [] []")
    case None
    with eq have "scanCanvas (asNotFound decode) ?mk ?c [] [] = None"
      by (simp add: foundAndCanvas_def)
    with None show ?thesis by (simp add: extractQrCodesFromImage_def returned_def)
  next
    case (Some y)
    obtain found cv l where y: "y = (found, cv, l)" by (cases y) auto
    from eq Some y obtain l' where
      "scanCanvas (asNotFound decode) ?mk ?c [] [] = Some (found, cv, l')"
      by (auto simp: foundAndCanvas_def)
    with Some y show ?thesis by (simp add: extractQrCodesFromImage_def returned_def)
  qed
qed

theorem detector_error_ends_page_like_notFound_witness:
  "failingDetector (blankOut sampleResult \<lparr>cv_rendered = (), cv_fills = []\<rparr>)
     = OtherException ''ChecksumException''
   \<and> scanCanvas failingDetector (markerRecord_ZXing 1 3 (1800, 2400))
        (blankOut sampleResult \<lparr>cv_rendered = (), cv_fills = []\<rparr>) [qrSample] []
     = Some ([qrSample], blankOut sampleResult \<lparr>cv_rendered = (), cv_fills = []\<rparr>,
             [''ChecksumException''])
   \<and> returned (extractQrCodesFromPdf_ZXing failingDetector 3 twoPageDoc)
     = returned (extractQrCodesFromPdf_ZXing (asNotFound failingDetector) 3 twoPageDoc)"
  using detector_error_ends_page_like_notFound
    [of failingDetector "blankOut sampleResult \<lparr>cv_rendered = (), cv_fills = []\<rparr>"
        "''ChecksumException''" "markerRecord_ZXing 1 3 (1800, 2400)" "[qrSample]" "[]"
        3 twoPageDoc]
  by (simp add: failingDetector_def blankOut_def fillRect_def Let_def)

text \<open>
  A detector that fails on both pages of a document after the first code of each, and
  one that signals not-found instead, return the same list to the caller; only the
  console differs.
\<close>

theorem detector_error_not_reported_counterexample:
  "returned (extractQrCodesFromPdf_ZXing failingDetector 3 twoPageDoc)
     = Some [markerRecord_ZXing 1 3 (1800, 2400) sampleResult,
             markerRecord_ZXing 2 3 (2400, 1800) sampleResult]
   \<and> returned (extractQrCodesFromPdf_ZXing quietDetector 3 twoPageDoc)
     = Some [markerRecord_ZXing 1 3 (1800, 2400) sampleResult,
             markerRecord_ZXing 2 3 (2400, 1800) sampleResult]
   \<and> map_option snd (extractQrCodesFromPdf_ZXing failingDetector 3 twoPageDoc)
     = Some [''ChecksumException'', ''ChecksumException'']"
  by (simp add: extractQrCodesFromPdf_ZXing_def twoPageDoc_def failingDetector_page
        quietDetector_page returned_def getViewport_def numeral_2_eq_2)

section \<open>Suppression without padding\<close>

text \<open>
  C2. The specification asks that the suppression whitens every pixel inside the bounding box
  extended by a padding margin on each side. The jsQR version does (lemma
  \<open>whiteOut_whitens_box\<close>). The ZXing versions fill exactly the bounding box of the
  result points: for the result above the filled rectangle is at (150, 150) of size 300
  by 300, and the pixel (145, 145), inside the box padded by 10, is not overwritten.
\<close>

theorem blankOut_leaves_padding_unpainted:
  "scanCanvas quietDetector (markerRecord_ZXing 1 3 (1800, 2400))
      \<lparr>cv_rendered = (), cv_fills = []\<rparr> [] []
     = Some ([markerRecord_ZXing 1 3 (1800, 2400) sampleResult],
             \<lparr>cv_rendered = (),
              cv_fills = [\<lparr>loc_x = 150, loc_y = 150, loc_width = 300, loc_height = 300\<rparr>]\<rparr>,
             [])
   \<and> inPaddedBox sampleResult 145 145
   \<and> \<not> pixelOverwritten
          \<lparr>cv_rendered = (),
           cv_fills = [\<lparr>loc_x = 150, loc_y = 150, loc_width = 300, loc_height = 300\<rparr>]\<rparr>
          145 145"
  by (simp add: quietDetector_page blankOut_def fillRect_def Let_def sampleResult_def
        getResultPoints_def inPaddedBox_def padding_def pixelOverwritten_def)

end
